theory Spec2Isabelle
  imports Complex_Main "HOL-Library.Multiset"
begin

section \<open>Data model (types.ts)\<close>

text \<open>
  JavaScript numbers are modelled as reals: rounding of IEEE doubles is not modelled.
  Times (\<open>Date.now()\<close>, in milliseconds) are integers.  The fields \<open>x\<close>, \<open>y\<close>,
  \<open>id\<close>, \<open>type\<close>, \<open>text\<close> and \<open>timestamp\<close> of the source carry the name of their
  type as a prefix, since a record field is a constant of the theory.
\<close>

record Position =
  pos_x :: real
  pos_y :: real

datatype CapyState = IDLE | WALKING | SWIMMING | EATING | SLEEPING | MEDITATING

record Stats =
  hunger :: real
  chill :: real
  energy :: real

datatype FoodType = ORANGE | WATERMELON

record FoodItem =
  food_id :: string
  food_x :: real
  food_y :: real
  food_type :: FoodType

record Thought =
  thought_text :: string
  thought_timestamp :: int

datatype Direction = Left | Right

section \<open>The component's state (App)\<close>

text \<open>
  The browser window, read by the code at every tick (\<open>window.innerWidth\<close>,
  \<open>window.innerHeight\<close>), and \<open>WATER_LEVEL_Y\<close>, which the module computes once when it
  is loaded, as 0.7 times the height the window has then.
\<close>

record World =
  innerWidth :: real
  innerHeight :: real
  WATER_LEVEL_Y :: real

definition MOVEMENT_SPEED :: real where
  "MOVEMENT_SPEED = 3"

definition API_DEBOUNCE_MS :: int where
  "API_DEBOUNCE_MS = 5000"

text \<open>
  A call of \<open>generateCapybaraThought\<close> that has not settled yet: its two arguments, and
  the \<open>now\<close> its caller holds for the timestamp of the thought.
\<close>

record Request =
  req_state :: CapyState
  req_stats :: Stats
  req_now :: int

text \<open>A callback registered by \<open>setTimeout\<close>: when it is due and the state it writes.\<close>

record Timer =
  timer_due :: int
  timer_state :: CapyState

text \<open>
  The seven \<open>useState\<close> cells and the \<open>lastAiCallTime\<close> ref of \<open>App\<close>, with the
  pending timers and the requests in flight, which live in the host.
\<close>

record App =
  pos :: Position
  direction :: Direction
  capyState :: CapyState
  stats :: Stats
  food :: "FoodItem list"
  thought :: "Thought option"
  isAiLoading :: bool
  lastAiCallTime :: int
  timers :: "Timer list"
  inflight :: "Request list"

definition initialApp :: "World \<Rightarrow> App" where
  "initialApp w =
     \<lparr>pos = \<lparr>pos_x = innerWidth w / 2, pos_y = innerHeight w / 2\<rparr>,
      direction = Right,
      capyState = IDLE,
      stats = \<lparr>hunger = 80, chill = 50, energy = 90\<rparr>,
      food = [],
      thought = None,
      isAiLoading = False,
      lastAiCallTime = 0,
      timers = [],
      inflight = []\<rparr>"

section \<open>The thought gate (triggerThought)\<close>

text \<open>
  \<open>triggerThought\<close> up to its \<open>await\<close>.  \<open>forcedState\<close> is an optional argument; every
  value of \<open>CapyState\<close> is a non-empty string, so \<open>!forcedState\<close> holds exactly when
  the argument is absent, and \<open>forcedState || capyState\<close> is the argument when present.
  \<open>cs\<close> and \<open>st\<close> are the \<open>capyState\<close> and \<open>stats\<close> the callback closes over.
\<close>

definition triggerThought :: "int \<Rightarrow> CapyState option \<Rightarrow> CapyState \<Rightarrow> Stats \<Rightarrow> App \<Rightarrow> App" where
  "triggerThought now forcedState cs st a =
     (if now - lastAiCallTime a < API_DEBOUNCE_MS \<and> forcedState = None then a
      else
        let stateForAi = (case forcedState of Some s \<Rightarrow> s | None \<Rightarrow> cs)
        in a\<lparr>isAiLoading := True,
              lastAiCallTime := now,
              inflight := inflight a @ [\<lparr>req_state = stateForAi, req_stats = st, req_now = now\<rparr>]\<rparr>)"

text \<open>
  How the awaited call settles.  \<open>generateCapybaraThought\<close> lives in
  \<open>services/geminiService\<close>; its result is a parameter here.
\<close>

datatype Outcome = Resolved string | Rejected

datatype Promise = Fulfilled | RejectedPromise

text \<open>
  \<open>triggerThought\<close> after its \<open>await\<close>, for the request at index \<open>i\<close>.  The function has
  no \<open>try\<close>: when the awaited promise rejects, the two statements after it do not run
  and the promise of \<open>triggerThought\<close> itself rejects.
\<close>

definition triggerThought_resume :: "nat \<Rightarrow> Outcome \<Rightarrow> App \<Rightarrow> Promise \<times> App" where
  "triggerThought_resume i outcome a =
     (if i < length (inflight a) then
        let r = inflight a ! i;
            a' = a\<lparr>inflight := take i (inflight a) @ drop (Suc i) (inflight a)\<rparr>
        in (case outcome of
              Resolved txt \<Rightarrow>
                (Fulfilled,
                 a'\<lparr>thought := Some \<lparr>thought_text = txt, thought_timestamp = req_now r\<rparr>,
                    isAiLoading := False\<rparr>)
            | Rejected \<Rightarrow> (RejectedPromise, a'))
      else (Fulfilled, a))"

section \<open>The stat model (updateStats)\<close>

text \<open>The updater that \<open>updateStats\<close> passes to \<open>setStats\<close>; \<open>cs\<close> is the \<open>capyState\<close>
  the callback closes over.\<close>

definition updateStats :: "CapyState \<Rightarrow> Stats \<Rightarrow> Stats" where
  "updateStats cs prev =
     (let h = max 0 (hunger prev - 0.02);
          e = (if cs = SLEEPING then min 100 (energy prev + 0.1)
               else if cs = WALKING \<or> cs = SWIMMING then max 0 (energy prev - 0.01)
               else energy prev);
          c = chill prev;
          c = (if cs = MEDITATING then min 100 (c + 0.1) else c);
          c = (if cs = SWIMMING then min 100 (c + 0.05) else c);
          c = (if h < 20 then max 0 (c - 0.05) else c)
      in \<lparr>hunger = h, chill = c, energy = e\<rparr>)"

text \<open>The updater passed to \<open>setStats\<close> when the food item \<open>f\<close> is eaten.\<close>

definition eatStats :: "FoodItem \<Rightarrow> Stats \<Rightarrow> Stats" where
  "eatStats f s =
     s\<lparr>hunger := min 100 (hunger s + (if food_type f = WATERMELON then 30 else 15)),
       energy := min 100 (energy s + 5)\<rparr>"

section \<open>The physics and collision resolver (updatePhysics)\<close>

definition has :: "string set \<Rightarrow> string \<Rightarrow> bool" where
  "has keys k = (k \<in> keys)"

text \<open>
  The local variables of the updater passed to \<open>setPos\<close>, and its movement logic:
  four \<open>if\<close> statements, run only when the state is none of the three locked ones.
\<close>

record Locals =
  newX :: real
  newY :: real
  isMoving :: bool
  newDirection :: Direction

definition movement :: "string set \<Rightarrow> Direction \<Rightarrow> CapyState \<Rightarrow> Position \<Rightarrow> Locals" where
  "movement keys dir cs currentPos =
     (let l0 = \<lparr>newX = pos_x currentPos, newY = pos_y currentPos,
                isMoving = False, newDirection = dir\<rparr>
      in if cs \<noteq> SLEEPING \<and> cs \<noteq> MEDITATING \<and> cs \<noteq> EATING then
           let l1 = (if has keys ''ArrowUp'' \<or> has keys ''w''
                     then l0\<lparr>newY := newY l0 - MOVEMENT_SPEED\<rparr> else l0);
               l2 = (if has keys ''ArrowDown'' \<or> has keys ''s''
                     then l1\<lparr>newY := newY l1 + MOVEMENT_SPEED\<rparr> else l1);
               l3 = (if has keys ''ArrowLeft'' \<or> has keys ''a''
                     then l2\<lparr>newX := newX l2 - MOVEMENT_SPEED,
                            newDirection := Left, isMoving := True\<rparr> else l2);
               l4 = (if has keys ''ArrowRight'' \<or> has keys ''d''
                     then l3\<lparr>newX := newX l3 + MOVEMENT_SPEED,
                            newDirection := Right, isMoving := True\<rparr> else l3)
           in l4
         else l0)"

text \<open>
  What the updater computes before it touches the food: the position it returns
  (after the boundaries), the direction it hands to \<open>setDirection\<close>, \<open>nextState\<close>
  and \<open>isInWater\<close>.
\<close>

record Physics =
  res_pos :: Position
  res_direction :: Direction
  res_nextState :: CapyState
  res_isInWater :: bool

definition physics :: "World \<Rightarrow> string set \<Rightarrow> Direction \<Rightarrow> CapyState \<Rightarrow> Position \<Rightarrow> Physics" where
  "physics w keys dir cs currentPos =
     (let l = movement keys dir cs currentPos;
          x' = max 50 (min (innerWidth w - 50) (newX l));
          y' = max 50 (min (innerHeight w - 50) (newY l));
          inWater = (y' > WATER_LEVEL_Y w);
          nxt = (if cs \<noteq> SLEEPING \<and> cs \<noteq> MEDITATING \<and> cs \<noteq> EATING then
                   (if inWater then SWIMMING
                    else if isMoving l then WALKING
                    else IDLE)
                 else cs)
      in \<lparr>res_pos = \<lparr>pos_x = x', pos_y = y'\<rparr>,
          res_direction = newDirection l,
          res_nextState = nxt,
          res_isInWater = inWater\<rparr>)"

text \<open>The distance the filter computes for a food item.\<close>

definition dist_to :: "Position \<Rightarrow> FoodItem \<Rightarrow> real" where
  "dist_to p f =
     (let dx = food_x f - pos_x p;
          dy = food_y f - pos_y p
      in sqrt (dx * dx + dy * dy))"

definition eaten_at :: "Position \<Rightarrow> FoodItem \<Rightarrow> bool" where
  "eaten_at p f = (dist_to p f < 50)"

text \<open>
  The four calls the filter makes for an eaten item, in their order:
  \<open>setCapyState(EATING)\<close>, \<open>setStats\<close>, \<open>setTimeout(..., 1000)\<close> and
  \<open>triggerThought(EATING)\<close>.  \<open>cs\<close> and \<open>st\<close> are what \<open>triggerThought\<close> closes over.
\<close>

definition eat :: "bool \<Rightarrow> int \<Rightarrow> CapyState \<Rightarrow> Stats \<Rightarrow> App \<Rightarrow> FoodItem \<Rightarrow> App" where
  "eat inWater now cs st a f =
     (let a1 = a\<lparr>capyState := EATING\<rparr>;
          a2 = a1\<lparr>stats := eatStats f (stats a1)\<rparr>;
          a3 = a2\<lparr>timers := timers a2 @
                 [\<lparr>timer_due = now + 1000,
                   timer_state = (if inWater then SWIMMING else IDLE)\<rparr>]\<rparr>
      in triggerThought now (Some EATING) cs st a3)"

section \<open>One frame (the loop of the game)\<close>

text \<open>
  One run of \<open>loop\<close>: \<open>updatePhysics(); updateStats()\<close>.  React queues the updater
  given to a setter of \<open>useState\<close> and runs it when it renders the component next,
  after \<open>loop\<close> has returned; a setter called from inside an updater queues in the
  same way, so its updater runs after the one that called it, and the writes to one
  cell apply in the order in which they were queued.  So the writes of a frame
  happen in this order:
  \<^enum> the updater of \<open>setPos\<close>: the new position, \<open>setDirection\<close>, the updater of
    \<open>setFood\<close> handed over, and \<open>setCapyState(nextState)\<close> when it differs from the
    \<open>capyState\<close> of the closure;
  \<^enum> the updater of \<open>setStats\<close> from \<open>updateStats\<close>;
  \<^enum> the updater of \<open>setFood\<close>: the filter, with the four calls of every eaten item,
    in the order of the collection.
  The closures are those of the last render: they hold the current \<open>capyState\<close>,
  \<open>direction\<close> and \<open>stats\<close>.  \<open>now\<close> is \<open>Date.now()\<close> during the frame.
\<close>

definition tick :: "World \<Rightarrow> string set \<Rightarrow> int \<Rightarrow> App \<Rightarrow> App" where
  "tick w keys now a =
     (let r = physics w keys (direction a) (capyState a) (pos a);
          a1 = a\<lparr>pos := res_pos r,
                 direction := (if direction a \<noteq> res_direction r then res_direction r
                               else direction a),
                 capyState := (if res_nextState r \<noteq> capyState a then res_nextState r
                               else capyState a)\<rparr>;
          a2 = a1\<lparr>stats := updateStats (capyState a) (stats a1)\<rparr>;
          a3 = a2\<lparr>food := filter (\<lambda>f. \<not> eaten_at (res_pos r) f) (food a2)\<rparr>
      in foldl (eat (res_isInWater r) now (capyState a) (stats a)) a3
           (filter (eaten_at (res_pos r)) (food a2)))"

section \<open>The other events\<close>

text \<open>\<open>spawnFood\<close>: the random item is a parameter.\<close>

definition spawnFood :: "FoodItem \<Rightarrow> App \<Rightarrow> App" where
  "spawnFood newFood a = a\<lparr>food := food a @ [newFood]\<rparr>"

text \<open>The two buttons; a click on a disabled button does nothing.\<close>

definition handleMeditate :: "int \<Rightarrow> App \<Rightarrow> App" where
  "handleMeditate now a =
     (if isAiLoading a \<or> capyState a = SWIMMING \<or> capyState a = SLEEPING then a
      else if capyState a = MEDITATING then a\<lparr>capyState := IDLE\<rparr>
      else triggerThought now (Some MEDITATING) (capyState a) (stats a)
             (a\<lparr>capyState := MEDITATING\<rparr>))"

definition handleSleep :: "App \<Rightarrow> App" where
  "handleSleep a =
     (if capyState a = SWIMMING \<or> capyState a = MEDITATING then a
      else if capyState a = SLEEPING then a\<lparr>capyState := IDLE\<rparr>
      else a\<lparr>capyState := SLEEPING\<rparr>)"

text \<open>
  The host runs the callback of the timer at index \<open>i\<close>, at time \<open>now\<close>: never before
  the timer is due.  The callback is \<open>setCapyState\<close> of the state it holds.
\<close>

definition timerFires :: "int \<Rightarrow> nat \<Rightarrow> App \<Rightarrow> App" where
  "timerFires now i a =
     (if i < length (timers a) \<and> timer_due (timers a ! i) \<le> now then
        a\<lparr>capyState := timer_state (timers a ! i),
          timers := take i (timers a) @ drop (Suc i) (timers a)\<rparr>
      else a)"

datatype Event =
    Tick World "string set" int
  | SpawnFood FoodItem
  | ClickMeditate int
  | ClickSleep
  | TimerFires int nat
  | ThoughtSettles nat Outcome

text \<open>Nothing awaits or catches the promise of \<open>triggerThought\<close>: it is dropped.\<close>

fun step :: "App \<Rightarrow> Event \<Rightarrow> App" where
  "step a (Tick w keys now) = tick w keys now a"
| "step a (SpawnFood f) = spawnFood f a"
| "step a (ClickMeditate now) = handleMeditate now a"
| "step a ClickSleep = handleSleep a"
| "step a (TimerFires now i) = timerFires now i a"
| "step a (ThoughtSettles i outcome) = snd (triggerThought_resume i outcome a)"

definition run :: "App \<Rightarrow> Event list \<Rightarrow> App" where
  "run a evs = foldl step a evs"

section \<open>Notions used by the properties\<close>

text \<open>The world of the scenarios: 800 by 600, the water starting at 420.\<close>

definition world800 :: World where
  "world800 = \<lparr>innerWidth = 800, innerHeight = 600, WATER_LEVEL_Y = 420\<rparr>"

text \<open>Every stat lies in the interval from 0 to 100.\<close>

definition stats_ok :: "Stats \<Rightarrow> bool" where
  "stats_ok s =
     (0 \<le> hunger s \<and> hunger s \<le> 100 \<and> 0 \<le> chill s \<and> chill s \<le> 100 \<and>
      0 \<le> energy s \<and> energy s \<le> 100)"

text \<open>
  The chill rule in the words of the specification: the rules that apply are summed
  on the previous chill, the hunger read is the previous one, and the sum is clamped
  once.
\<close>

definition spec_chill :: "CapyState \<Rightarrow> Stats \<Rightarrow> real" where
  "spec_chill cs prev =
     max 0 (min 100
       (chill prev
        + (if cs = MEDITATING then 0.1 else 0)
        + (if cs = SWIMMING then 0.05 else 0)
        - (if hunger prev < 20 then 0.05 else 0)))"

section \<open>Auxiliary facts\<close>

lemma sqrt_less_50: "sqrt a < 50 \<longleftrightarrow> a < 2500"
proof -
  have "sqrt 2500 = 50" by (rule real_sqrt_unique) simp_all
  then show ?thesis using real_sqrt_less_iff [of a 2500] by simp
qed

lemma eaten_at_iff:
  "eaten_at p f \<longleftrightarrow>
     (food_x f - pos_x p) * (food_x f - pos_x p) + (food_y f - pos_y p) * (food_y f - pos_y p) < 2500"
  by (simp add: eaten_at_def dist_to_def Let_def sqrt_less_50)

lemma clamp_bounds: "(lo::real) \<le> hi \<Longrightarrow> lo \<le> max lo (min hi v) \<and> max lo (min hi v) \<le> hi"
  by auto

lemma clamp_id: "(lo::real) \<le> v \<Longrightarrow> v \<le> hi \<Longrightarrow> max lo (min hi v) = v"
  by auto

subsection \<open>The fields of a frame\<close>

lemma eat_pos: "pos (eat iw now cs st a f) = pos a"
  by (simp add: eat_def triggerThought_def Let_def)

lemma eat_direction: "direction (eat iw now cs st a f) = direction a"
  by (simp add: eat_def triggerThought_def Let_def)

lemma eat_food: "food (eat iw now cs st a f) = food a"
  by (simp add: eat_def triggerThought_def Let_def)

lemma eat_capyState: "capyState (eat iw now cs st a f) = EATING"
  by (simp add: eat_def triggerThought_def Let_def)

lemma eat_stats: "stats (eat iw now cs st a f) = eatStats f (stats a)"
  by (simp add: eat_def triggerThought_def Let_def)

lemma eat_timers:
  "timers (eat iw now cs st a f) =
     timers a @ [\<lparr>timer_due = now + 1000, timer_state = (if iw then SWIMMING else IDLE)\<rparr>]"
  by (simp add: eat_def triggerThought_def Let_def)

lemma foldl_eat_pos: "pos (foldl (eat iw now cs st) a fs) = pos a"
  by (induction fs arbitrary: a) (simp_all add: eat_pos)

lemma foldl_eat_direction: "direction (foldl (eat iw now cs st) a fs) = direction a"
  by (induction fs arbitrary: a) (simp_all add: eat_direction)

lemma foldl_eat_food: "food (foldl (eat iw now cs st) a fs) = food a"
  by (induction fs arbitrary: a) (simp_all add: eat_food)

lemma foldl_eat_capyState:
  "capyState (foldl (eat iw now cs st) a fs) = (if fs = [] then capyState a else EATING)"
  by (induction fs arbitrary: a) (simp_all add: eat_capyState)

lemma foldl_eat_stats:
  "stats (foldl (eat iw now cs st) a fs) = foldl (\<lambda>s f. eatStats f s) (stats a) fs"
  by (induction fs arbitrary: a) (simp_all add: eat_stats)

lemma foldl_eat_timers:
  "timers (foldl (eat iw now cs st) a fs) =
     timers a @ replicate (length fs)
       \<lparr>timer_due = now + 1000, timer_state = (if iw then SWIMMING else IDLE)\<rparr>"
  by (induction fs arbitrary: a) (simp_all add: eat_timers replicate_app_Cons_same)

lemma physics_pos_x:
  "pos_x (res_pos (physics w keys dir cs p)) =
     max 50 (min (innerWidth w - 50) (newX (movement keys dir cs p)))"
  by (simp add: physics_def Let_def)

lemma physics_pos_y:
  "pos_y (res_pos (physics w keys dir cs p)) =
     max 50 (min (innerHeight w - 50) (newY (movement keys dir cs p)))"
  by (simp add: physics_def Let_def)

lemma physics_direction:
  "res_direction (physics w keys dir cs p) = newDirection (movement keys dir cs p)"
  by (simp add: physics_def Let_def)

lemma physics_isInWater:
  "res_isInWater (physics w keys dir cs p) =
     (pos_y (res_pos (physics w keys dir cs p)) > WATER_LEVEL_Y w)"
  by (simp add: physics_def Let_def)

lemma physics_nextState:
  "res_nextState (physics w keys dir cs p) =
     (if cs \<noteq> SLEEPING \<and> cs \<noteq> MEDITATING \<and> cs \<noteq> EATING then
        (if pos_y (res_pos (physics w keys dir cs p)) > WATER_LEVEL_Y w then SWIMMING
         else if isMoving (movement keys dir cs p) then WALKING
         else IDLE)
      else cs)"
  by (simp add: physics_def Let_def)

lemma tick_pos:
  "pos (tick w keys now a) = res_pos (physics w keys (direction a) (capyState a) (pos a))"
  by (simp add: tick_def Let_def foldl_eat_pos)

lemma tick_direction:
  "direction (tick w keys now a) =
     newDirection (movement keys (direction a) (capyState a) (pos a))"
  by (simp add: tick_def Let_def foldl_eat_direction physics_direction)

lemma tick_food:
  "food (tick w keys now a) = filter (\<lambda>f. \<not> eaten_at (pos (tick w keys now a)) f) (food a)"
  by (simp add: tick_pos) (simp add: tick_def Let_def foldl_eat_food)

lemma tick_capyState:
  "capyState (tick w keys now a) =
     (if filter (eaten_at (pos (tick w keys now a))) (food a) = []
      then res_nextState (physics w keys (direction a) (capyState a) (pos a))
      else EATING)"
  by (simp add: tick_pos) (simp add: tick_def Let_def foldl_eat_capyState)

lemma tick_stats:
  "stats (tick w keys now a) =
     foldl (\<lambda>s f. eatStats f s) (updateStats (capyState a) (stats a))
       (filter (eaten_at (pos (tick w keys now a))) (food a))"
  by (simp add: tick_pos) (simp add: tick_def Let_def foldl_eat_stats)

lemma tick_timers:
  "timers (tick w keys now a) =
     timers a @ replicate (length (filter (eaten_at (pos (tick w keys now a))) (food a)))
       \<lparr>timer_due = now + 1000,
         timer_state =
           (if pos_y (pos (tick w keys now a)) > WATER_LEVEL_Y w then SWIMMING else IDLE)\<rparr>"
  by (simp add: tick_pos) (simp add: tick_def Let_def foldl_eat_timers physics_isInWater)

subsection \<open>Movement\<close>

lemma movement_locked:
  "cs = SLEEPING \<or> cs = MEDITATING \<or> cs = EATING \<Longrightarrow>
   movement keys dir cs p =
     \<lparr>newX = pos_x p, newY = pos_y p, isMoving = False, newDirection = dir\<rparr>"
  by (auto simp add: movement_def Let_def)

lemma movement_newY:
  "cs \<noteq> SLEEPING \<Longrightarrow> cs \<noteq> MEDITATING \<Longrightarrow> cs \<noteq> EATING \<Longrightarrow>
   newY (movement keys dir cs p) =
     pos_y p + (if has keys ''ArrowUp'' \<or> has keys ''w'' then - 3 else 0)
             + (if has keys ''ArrowDown'' \<or> has keys ''s'' then 3 else 0)"
  by (simp add: movement_def Let_def MOVEMENT_SPEED_def)

lemma movement_newX:
  "cs \<noteq> SLEEPING \<Longrightarrow> cs \<noteq> MEDITATING \<Longrightarrow> cs \<noteq> EATING \<Longrightarrow>
   newX (movement keys dir cs p) =
     pos_x p + (if has keys ''ArrowLeft'' \<or> has keys ''a'' then - 3 else 0)
             + (if has keys ''ArrowRight'' \<or> has keys ''d'' then 3 else 0)"
  by (simp add: movement_def Let_def MOVEMENT_SPEED_def)

lemma movement_isMoving:
  "cs \<noteq> SLEEPING \<Longrightarrow> cs \<noteq> MEDITATING \<Longrightarrow> cs \<noteq> EATING \<Longrightarrow>
   isMoving (movement keys dir cs p) =
     ((has keys ''ArrowLeft'' \<or> has keys ''a'') \<or> (has keys ''ArrowRight'' \<or> has keys ''d''))"
  by (simp add: movement_def Let_def)

lemma movement_newDirection:
  "cs \<noteq> SLEEPING \<Longrightarrow> cs \<noteq> MEDITATING \<Longrightarrow> cs \<noteq> EATING \<Longrightarrow>
   newDirection (movement keys dir cs p) =
     (if has keys ''ArrowRight'' \<or> has keys ''d'' then Right
      else if has keys ''ArrowLeft'' \<or> has keys ''a'' then Left
      else dir)"
  by (simp add: movement_def Let_def)

subsection \<open>Stats\<close>

lemma updateStats_ok: "stats_ok s \<Longrightarrow> stats_ok (updateStats cs s)"
  by (auto simp add: stats_ok_def updateStats_def Let_def)

lemma eatStats_ok: "stats_ok s \<Longrightarrow> stats_ok (eatStats f s)"
  by (simp add: stats_ok_def eatStats_def)

lemma foldl_eatStats_ok:
  "stats_ok s \<Longrightarrow> stats_ok (foldl (\<lambda>s f. eatStats f s) s fs)"
  by (induction fs arbitrary: s) (simp_all add: eatStats_ok)

lemma triggerThought_stats: "stats (triggerThought now forced cs st a) = stats a"
  by (simp add: triggerThought_def Let_def)

lemma step_stats_ok: "stats_ok (stats a) \<Longrightarrow> stats_ok (stats (step a e))"
proof (cases e)
  case (Tick w keys now)
  assume "stats_ok (stats a)"
  then show ?thesis
    by (simp add: Tick tick_stats foldl_eatStats_ok updateStats_ok)
next
  case (SpawnFood f)
  assume "stats_ok (stats a)"
  then show ?thesis by (simp add: SpawnFood spawnFood_def)
next
  case (ClickMeditate now)
  assume "stats_ok (stats a)"
  then show ?thesis by (simp add: ClickMeditate handleMeditate_def triggerThought_stats)
next
  case ClickSleep
  assume "stats_ok (stats a)"
  then show ?thesis by (simp add: ClickSleep handleSleep_def)
next
  case (TimerFires now i)
  assume "stats_ok (stats a)"
  then show ?thesis by (simp add: TimerFires timerFires_def)
next
  case (ThoughtSettles i outcome)
  assume "stats_ok (stats a)"
  then show ?thesis
    by (simp add: ThoughtSettles triggerThought_resume_def Let_def split: Outcome.split)
qed

lemma run_stats_ok: "stats_ok (stats a) \<Longrightarrow> stats_ok (stats (run a evs))"
  unfolding run_def by (induction evs arbitrary: a) (simp_all add: step_stats_ok)

lemma initial_stats_ok: "stats_ok (stats (initialApp w))"
  by (simp add: initialApp_def stats_ok_def)

subsection \<open>Evaluating a frame\<close>

lemmas frame_fields = tick_pos tick_direction tick_food tick_capyState tick_stats tick_timers

lemmas frame_eval = physics_def movement_def has_def MOVEMENT_SPEED_def Let_def eaten_at_iff
  world800_def initialApp_def updateStats_def eatStats_def

text \<open>Where the chill rule of the specification and the code agree.\<close>

lemma spec_chill_agrees:
  assumes "hunger prev < 20 \<or> 20.02 \<le> hunger prev"
    and "0 \<le> chill prev"
    and "chill prev + (if cs = MEDITATING then 0.1 else 0) + (if cs = SWIMMING then 0.05 else 0) \<le> 100"
  shows "chill (updateStats cs prev) = spec_chill cs prev"
  using assms by (auto simp add: updateStats_def spec_chill_def Let_def)

section \<open>Food collision and consumption\<close>

text \<open>
  C1.  In every frame, the food items at a distance below 50 from the position the
  frame arrives at are exactly the ones removed from the collection: the collection
  splits into the eaten items and the remaining ones, no remaining item is in range
  any more, and every eaten item has its effects once.  The stats are those of the
  stat model's update of the frame, with, for every eaten item in the order of the
  collection, the hunger raised by 30 for a watermelon and by 15 otherwise and the
  energy raised by 5, each capped at 100.  When an item is eaten the state is
  \<open>EATING\<close>, whatever state the physics derived; otherwise it is the derived state.
\<close>

theorem food_consumed:
  assumes "a' = tick w keys now a"
    and "eaten = filter (eaten_at (pos a')) (food a)"
  shows "food a' = filter (\<lambda>f. \<not> eaten_at (pos a') f) (food a)
       \<and> mset eaten + mset (food a') = mset (food a)
       \<and> set eaten \<inter> set (food a') = {}
       \<and> (\<forall>f \<in> set (food a'). \<not> eaten_at (pos a') f)
       \<and> stats a' =
           foldl (\<lambda>s f. s\<lparr>hunger := min 100 (hunger s + (if food_type f = WATERMELON then 30 else 15)),
                          energy := min 100 (energy s + 5)\<rparr>)
             (updateStats (capyState a) (stats a)) eaten
       \<and> capyState a' =
           (if eaten = [] then res_nextState (physics w keys (direction a) (capyState a) (pos a))
            else EATING)
       \<and> length (timers a') = length (timers a) + length eaten"
proof -
  have f: "food a' = filter (\<lambda>f. \<not> eaten_at (pos a') f) (food a)"
    unfolding assms(1) by (rule tick_food)
  have m: "mset eaten + mset (food a') = mset (food a)"
    unfolding f assms(2) by simp
  have d: "set eaten \<inter> set (food a') = {}"
    unfolding f assms(2) by auto
  have n: "\<forall>f \<in> set (food a'). \<not> eaten_at (pos a') f"
    unfolding f by simp
  have s: "stats a' =
           foldl (\<lambda>s f. s\<lparr>hunger := min 100 (hunger s + (if food_type f = WATERMELON then 30 else 15)),
                          energy := min 100 (energy s + 5)\<rparr>)
             (updateStats (capyState a) (stats a)) eaten"
    unfolding assms using tick_stats [of w keys now a] by (simp add: eatStats_def)
  have c: "capyState a' =
           (if eaten = [] then res_nextState (physics w keys (direction a) (capyState a) (pos a))
            else EATING)"
    unfolding assms by (rule tick_capyState)
  have t: "length (timers a') = length (timers a) + length eaten"
    unfolding assms by (subst tick_timers) simp
  from f m d n s c t show ?thesis by blast
qed

text \<open>
  The creature at (100, 100) steps to the right, towards an orange at (120, 100): the
  physics derives \<open>WALKING\<close>, the frame ends in \<open>EATING\<close>.  A watermelon at distance 50
  exactly from the new position stays.
\<close>

theorem food_consumed_witness:
  "food (tick world800 {''ArrowRight''} 16
     ((initialApp world800)
        \<lparr>pos := \<lparr>pos_x = 100, pos_y = 100\<rparr>,
         food := [\<lparr>food_id = ''f1'', food_x = 120, food_y = 100, food_type = ORANGE\<rparr>,
                  \<lparr>food_id = ''f2'', food_x = 153, food_y = 100, food_type = WATERMELON\<rparr>]\<rparr>)) =
     [\<lparr>food_id = ''f2'', food_x = 153, food_y = 100, food_type = WATERMELON\<rparr>]
   \<and> stats (tick world800 {''ArrowRight''} 16
     ((initialApp world800)
        \<lparr>pos := \<lparr>pos_x = 100, pos_y = 100\<rparr>,
         food := [\<lparr>food_id = ''f1'', food_x = 120, food_y = 100, food_type = ORANGE\<rparr>,
                  \<lparr>food_id = ''f2'', food_x = 153, food_y = 100, food_type = WATERMELON\<rparr>]\<rparr>)) =
     \<lparr>hunger = 94.98, chill = 50, energy = 95\<rparr>
   \<and> res_nextState (physics world800 {''ArrowRight''} Right IDLE \<lparr>pos_x = 100, pos_y = 100\<rparr>) =
       WALKING
   \<and> capyState (tick world800 {''ArrowRight''} 16
     ((initialApp world800)
        \<lparr>pos := \<lparr>pos_x = 100, pos_y = 100\<rparr>,
         food := [\<lparr>food_id = ''f1'', food_x = 120, food_y = 100, food_type = ORANGE\<rparr>,
                  \<lparr>food_id = ''f2'', food_x = 153, food_y = 100, food_type = WATERMELON\<rparr>]\<rparr>)) =
     EATING
   \<and> length (timers (tick world800 {''ArrowRight''} 16
     ((initialApp world800)
        \<lparr>pos := \<lparr>pos_x = 100, pos_y = 100\<rparr>,
         food := [\<lparr>food_id = ''f1'', food_x = 120, food_y = 100, food_type = ORANGE\<rparr>,
                  \<lparr>food_id = ''f2'', food_x = 153, food_y = 100, food_type = WATERMELON\<rparr>]\<rparr>))) = 1"
  using food_consumed [OF refl refl, of world800 "{''ArrowRight''}" 16
     "((initialApp world800)
        \<lparr>pos := \<lparr>pos_x = 100, pos_y = 100\<rparr>,
         food := [\<lparr>food_id = ''f1'', food_x = 120, food_y = 100, food_type = ORANGE\<rparr>,
                  \<lparr>food_id = ''f2'', food_x = 153, food_y = 100, food_type = WATERMELON\<rparr>]\<rparr>)"]
  by (simp add: frame_fields frame_eval)

section \<open>Boundaries\<close>

text \<open>
  C2, as the code has it.  After every frame, for any pressed keys and any previous
  state, the position satisfies \<open>50 \<le> x\<close> and \<open>50 \<le> y\<close>; it satisfies
  \<open>x \<le> innerWidth - 50\<close> when the window is at least 100 wide, and
  \<open>y \<le> innerHeight - 50\<close> when it is at least 100 high.
\<close>

theorem position_within_margins:
  "50 \<le> pos_x (pos (tick w keys now a))
   \<and> 50 \<le> pos_y (pos (tick w keys now a))
   \<and> (100 \<le> innerWidth w \<longrightarrow> pos_x (pos (tick w keys now a)) \<le> innerWidth w - 50)
   \<and> (100 \<le> innerHeight w \<longrightarrow> pos_y (pos (tick w keys now a)) \<le> innerHeight w - 50)"
proof -
  have x: "pos_x (pos (tick w keys now a)) \<le> innerWidth w - 50" if "100 \<le> innerWidth w"
  proof -
    from that have "(50::real) \<le> innerWidth w - 50" by simp
    from clamp_bounds [OF this] show ?thesis unfolding tick_pos physics_pos_x by blast
  qed
  have y: "pos_y (pos (tick w keys now a)) \<le> innerHeight w - 50" if "100 \<le> innerHeight w"
  proof -
    from that have "(50::real) \<le> innerHeight w - 50" by simp
    from clamp_bounds [OF this] show ?thesis unfolding tick_pos physics_pos_y by blast
  qed
  have lx: "50 \<le> pos_x (pos (tick w keys now a))"
    unfolding tick_pos physics_pos_x by simp
  have ly: "50 \<le> pos_y (pos (tick w keys now a))"
    unfolding tick_pos physics_pos_y by simp
  from lx ly x y show ?thesis by blast
qed

text \<open>One step to the left and up from (51, 52) ends on the margins.\<close>

theorem position_within_margins_witness:
  "pos (tick world800 {''ArrowLeft'', ''w''} 16
     ((initialApp world800)\<lparr>pos := \<lparr>pos_x = 51, pos_y = 52\<rparr>\<rparr>)) = \<lparr>pos_x = 50, pos_y = 50\<rparr>
   \<and> pos_x (pos (tick world800 {''ArrowLeft'', ''w''} 16
     ((initialApp world800)\<lparr>pos := \<lparr>pos_x = 51, pos_y = 52\<rparr>\<rparr>))) \<le> 750
   \<and> pos_y (pos (tick world800 {''ArrowLeft'', ''w''} 16
     ((initialApp world800)\<lparr>pos := \<lparr>pos_x = 51, pos_y = 52\<rparr>\<rparr>))) \<le> 550"
  using position_within_margins [of world800 "{''ArrowLeft'', ''w''}" 16
      "(initialApp world800)\<lparr>pos := \<lparr>pos_x = 51, pos_y = 52\<rparr>\<rparr>"]
  by (simp add: frame_fields frame_eval)

text \<open>
  In a window 80 wide the first frame, with no key pressed, moves the creature from
  \<open>x = 40\<close> to \<open>x = 50\<close>, beyond \<open>innerWidth - 50 = 30\<close>: the lower bound is applied
  last and wins.
\<close>

theorem position_within_margins_counterexample:
  "pos_x (pos (initialApp \<lparr>innerWidth = 80, innerHeight = 600, WATER_LEVEL_Y = 420\<rparr>)) = 40
   \<and> pos_x (pos (tick \<lparr>innerWidth = 80, innerHeight = 600, WATER_LEVEL_Y = 420\<rparr> {} 16
        (initialApp \<lparr>innerWidth = 80, innerHeight = 600, WATER_LEVEL_Y = 420\<rparr>))) = 50
   \<and> innerWidth \<lparr>innerWidth = 80, innerHeight = 600, WATER_LEVEL_Y = 420\<rparr> - 50 = 30
   \<and> \<not> pos_x (pos (tick \<lparr>innerWidth = 80, innerHeight = 600, WATER_LEVEL_Y = 420\<rparr> {} 16
        (initialApp \<lparr>innerWidth = 80, innerHeight = 600, WATER_LEVEL_Y = 420\<rparr>)))
       \<le> innerWidth \<lparr>innerWidth = 80, innerHeight = 600, WATER_LEVEL_Y = 420\<rparr> - 50"
  by (simp add: frame_fields frame_eval)

section \<open>Locked states\<close>

text \<open>
  C3, as the code has it.  In a frame taken in one of the states \<open>EATING\<close>,
  \<open>SLEEPING\<close> and \<open>MEDITATING\<close> the physics derives the state it found, so it does
  not write the state; the facing direction stays and the position is only brought
  inside the margins.  The state after the frame is the locked state, unless a food
  item is in range of the position: then the frame sets it to \<open>EATING\<close>.
\<close>

theorem locked_tick:
  assumes "capyState a = SLEEPING \<or> capyState a = MEDITATING \<or> capyState a = EATING"
  shows "capyState (tick w keys now a) =
           (if \<exists>f \<in> set (food a). eaten_at (pos (tick w keys now a)) f then EATING
            else capyState a)
       \<and> res_nextState (physics w keys (direction a) (capyState a) (pos a)) = capyState a
       \<and> direction (tick w keys now a) = direction a
       \<and> pos (tick w keys now a) =
           \<lparr>pos_x = max 50 (min (innerWidth w - 50) (pos_x (pos a))),
            pos_y = max 50 (min (innerHeight w - 50) (pos_y (pos a)))\<rparr>"
proof -
  have n: "res_nextState (physics w keys (direction a) (capyState a) (pos a)) = capyState a"
    using assms by (auto simp add: physics_nextState)
  have c: "capyState (tick w keys now a) =
           (if \<exists>f \<in> set (food a). eaten_at (pos (tick w keys now a)) f then EATING
            else capyState a)"
    by (subst tick_capyState) (simp add: n filter_empty_conv)
  have d: "direction (tick w keys now a) = direction a"
    by (simp add: tick_direction movement_locked [OF assms])
  have p: "pos (tick w keys now a) =
           \<lparr>pos_x = max 50 (min (innerWidth w - 50) (pos_x (pos a))),
            pos_y = max 50 (min (innerHeight w - 50) (pos_y (pos a)))\<rparr>"
    by (simp add: tick_pos physics_def Let_def movement_locked [OF assms])
  from c n d p show ?thesis by blast
qed

text \<open>A sleeping creature with no food around: the left arrow changes nothing.\<close>

theorem locked_tick_witness:
  "capyState (tick world800 {''ArrowLeft''} 16 (handleSleep (initialApp world800))) = SLEEPING
   \<and> pos (tick world800 {''ArrowLeft''} 16 (handleSleep (initialApp world800))) =
       \<lparr>pos_x = 400, pos_y = 300\<rparr>
   \<and> direction (tick world800 {''ArrowLeft''} 16 (handleSleep (initialApp world800))) = Right"
proof -
  have l: "capyState (handleSleep (initialApp world800)) = SLEEPING
         \<or> capyState (handleSleep (initialApp world800)) = MEDITATING
         \<or> capyState (handleSleep (initialApp world800)) = EATING"
    by (simp add: handleSleep_def initialApp_def)
  show ?thesis
    using locked_tick [OF l, of world800 "{''ArrowLeft''}" 16]
    by (simp add: handleSleep_def initialApp_def world800_def)
qed

text \<open>
  A sleeping creature next to which an orange appears is \<open>EATING\<close> after the next
  frame; put to sleep again, it is woken by the timer of that meal.
\<close>

theorem locked_tick_counterexample:
  "capyState (run (initialApp world800)
     [ClickSleep,
      SpawnFood \<lparr>food_id = ''f1'', food_x = 410, food_y = 300, food_type = ORANGE\<rparr>]) = SLEEPING
   \<and> capyState (run (initialApp world800)
     [ClickSleep,
      SpawnFood \<lparr>food_id = ''f1'', food_x = 410, food_y = 300, food_type = ORANGE\<rparr>,
      Tick world800 {} 16]) = EATING
   \<and> capyState (run (initialApp world800)
     [ClickSleep,
      SpawnFood \<lparr>food_id = ''f1'', food_x = 410, food_y = 300, food_type = ORANGE\<rparr>,
      Tick world800 {} 16,
      ClickSleep]) = SLEEPING
   \<and> capyState (run (initialApp world800)
     [ClickSleep,
      SpawnFood \<lparr>food_id = ''f1'', food_x = 410, food_y = 300, food_type = ORANGE\<rparr>,
      Tick world800 {} 16,
      ClickSleep,
      TimerFires 1016 0]) = IDLE"
  by (simp add: run_def handleSleep_def spawnFood_def timerFires_def frame_fields frame_eval)

section \<open>The stat model\<close>

text \<open>
  C4, as the code has it.  The new chill comes from the previous one by three rules
  applied one after the other, each with its own clamp: 0.1 more, capped at 100, when
  the state is \<open>MEDITATING\<close>; 0.05 more, capped at 100, when it is \<open>SWIMMING\<close>; 0.05
  less, floored at 0, when the hunger after the decay of this same update is below
  20, that is, when the previous hunger is below 20.02.
\<close>

theorem chill_rule:
  "chill (updateStats cs prev) =
     (let c1 = (if cs = MEDITATING then min 100 (chill prev + 0.1)
                else if cs = SWIMMING then min 100 (chill prev + 0.05)
                else chill prev)
      in if hunger prev < 20.02 then max 0 (c1 - 0.05) else c1)"
  by (auto simp add: updateStats_def Let_def)

theorem chill_rule_witness:
  "chill (updateStats MEDITATING \<lparr>hunger = 10, chill = 100, energy = 90\<rparr>) = 99.95
   \<and> chill (updateStats SWIMMING \<lparr>hunger = 50, chill = 30, energy = 90\<rparr>) = 30.05
   \<and> chill (updateStats IDLE \<lparr>hunger = 20.01, chill = 30, energy = 90\<rparr>) = 29.95"
  using chill_rule [of MEDITATING "\<lparr>hunger = 10, chill = 100, energy = 90\<rparr>"]
    chill_rule [of SWIMMING "\<lparr>hunger = 50, chill = 30, energy = 90\<rparr>"]
    chill_rule [of IDLE "\<lparr>hunger = 20.01, chill = 30, energy = 90\<rparr>"]
  by (simp add: Let_def)

text \<open>
  A previous hunger of exactly 20 already lowers the chill, and a meditating, hungry
  creature at chill 100 loses 0.05, where one clamp of the sum would keep 100.
\<close>

theorem chill_rule_counterexample:
  "chill (updateStats IDLE \<lparr>hunger = 20, chill = 50, energy = 90\<rparr>) = 49.95
   \<and> spec_chill IDLE \<lparr>hunger = 20, chill = 50, energy = 90\<rparr> = 50
   \<and> chill (updateStats MEDITATING \<lparr>hunger = 10, chill = 100, energy = 90\<rparr>) = 99.95
   \<and> spec_chill MEDITATING \<lparr>hunger = 10, chill = 100, energy = 90\<rparr> = 100"
  by (simp add: updateStats_def spec_chill_def Let_def)

text \<open>
  C8.  Each of hunger, chill and energy stays between 0 and 100: the update of the
  stat model and the update of a consumption keep the three in range, for any state,
  and so they are in range after any sequence of events from the initial state.
\<close>

theorem stats_stay_in_range:
  "(stats_ok s \<longrightarrow> stats_ok (updateStats cs s) \<and> stats_ok (eatStats f s))
   \<and> stats_ok (stats (run (initialApp w) evs))"
  by (simp add: updateStats_ok eatStats_ok run_stats_ok initial_stats_ok)

theorem stats_stay_in_range_witness:
  "stats_ok (updateStats SLEEPING \<lparr>hunger = 0.01, chill = 0.01, energy = 99.95\<rparr>)
   \<and> stats_ok (eatStats \<lparr>food_id = ''f1'', food_x = 120, food_y = 100, food_type = WATERMELON\<rparr>
        \<lparr>hunger = 80, chill = 50, energy = 99\<rparr>)
   \<and> stats_ok (stats (run (initialApp world800)
        [SpawnFood \<lparr>food_id = ''f1'', food_x = 410, food_y = 300, food_type = WATERMELON\<rparr>,
         Tick world800 {} 16]))"
proof -
  have a: "stats_ok \<lparr>hunger = 0.01, chill = 0.01, energy = 99.95\<rparr>"
    by (simp add: stats_ok_def)
  have b: "stats_ok \<lparr>hunger = 80, chill = 50, energy = 99\<rparr>"
    by (simp add: stats_ok_def)
  show ?thesis
    using a b
      stats_stay_in_range [of "\<lparr>hunger = 0.01, chill = 0.01, energy = 99.95\<rparr>" SLEEPING
        "\<lparr>food_id = ''f1'', food_x = 120, food_y = 100, food_type = WATERMELON\<rparr>" world800
        "[SpawnFood \<lparr>food_id = ''f1'', food_x = 410, food_y = 300, food_type = WATERMELON\<rparr>,
          Tick world800 {} 16]"]
      stats_stay_in_range [of "\<lparr>hunger = 80, chill = 50, energy = 99\<rparr>" SLEEPING
        "\<lparr>food_id = ''f1'', food_x = 120, food_y = 100, food_type = WATERMELON\<rparr>" world800 "[]"]
    by simp
qed

section \<open>The thought gate\<close>

text \<open>
  C6.  A request reaches the text generation exactly when it is forced or at least
  5000 ms have passed since the last dispatch; every dispatched request, forced or
  not, sets the last dispatch time to the current time, and a request that is not
  dispatched changes nothing.
\<close>

theorem thought_gate:
  "(inflight (triggerThought now forced cs st a) \<noteq> inflight a) =
     (forced \<noteq> None \<or> API_DEBOUNCE_MS \<le> now - lastAiCallTime a)
   \<and> (if forced \<noteq> None \<or> 5000 \<le> now - lastAiCallTime a
      then inflight (triggerThought now forced cs st a) =
             inflight a @ [\<lparr>req_state = (case forced of Some s \<Rightarrow> s | None \<Rightarrow> cs),
                           req_stats = st, req_now = now\<rparr>]
           \<and> lastAiCallTime (triggerThought now forced cs st a) = now
      else triggerThought now forced cs st a = a)"
  by (auto simp add: triggerThought_def API_DEBOUNCE_MS_def Let_def)

theorem thought_gate_witness:
  "inflight (triggerThought 6000 (Some MEDITATING) IDLE (stats (initialApp world800))
       ((initialApp world800)\<lparr>lastAiCallTime := 5000\<rparr>)) =
     [\<lparr>req_state = MEDITATING, req_stats = \<lparr>hunger = 80, chill = 50, energy = 90\<rparr>, req_now = 6000\<rparr>]
   \<and> lastAiCallTime (triggerThought 6000 (Some MEDITATING) IDLE (stats (initialApp world800))
       ((initialApp world800)\<lparr>lastAiCallTime := 5000\<rparr>)) = 6000
   \<and> triggerThought 6000 None IDLE (stats (initialApp world800))
       ((initialApp world800)\<lparr>lastAiCallTime := 5000\<rparr>) =
     (initialApp world800)\<lparr>lastAiCallTime := 5000\<rparr>
   \<and> lastAiCallTime (triggerThought 10000 None IDLE (stats (initialApp world800))
       ((initialApp world800)\<lparr>lastAiCallTime := 5000\<rparr>)) = 10000"
  using thought_gate [of 6000 "Some MEDITATING" IDLE "stats (initialApp world800)"
      "(initialApp world800)\<lparr>lastAiCallTime := 5000\<rparr>"]
    thought_gate [of 6000 None IDLE "stats (initialApp world800)"
      "(initialApp world800)\<lparr>lastAiCallTime := 5000\<rparr>"]
    thought_gate [of 10000 None IDLE "stats (initialApp world800)"
      "(initialApp world800)\<lparr>lastAiCallTime := 5000\<rparr>"]
  by (simp add: initialApp_def)

text \<open>
  What a rejected call leaves behind: the request is gone and no cell of the state
  is written.  \<open>triggerThought\<close> holds no handler around its \<open>await\<close>, so the two
  statements after it, \<open>setThought\<close> and \<open>setIsAiLoading(false)\<close>, are both skipped.
\<close>

lemma resume_rejected:
  assumes "i < length (inflight a)"
  shows "triggerThought_resume i Rejected a =
           (RejectedPromise, a\<lparr>inflight := take i (inflight a) @ drop (Suc i) (inflight a)\<rparr>)"
  using assms by (simp add: triggerThought_resume_def Let_def)

lemma resume_resolved:
  assumes "i < length (inflight a)"
  shows "isAiLoading (snd (triggerThought_resume i (Resolved txt) a)) = False"
  using assms by (simp add: triggerThought_resume_def Let_def)

text \<open>
  C5.  A failed text generation has to leave the current thought as it is and still
  clear the busy flag.  The code does the first and misses the second.  After the
  Meditate button has sent a request and that request is rejected, the thought is
  unchanged, the busy flag that the dispatch set is still set, the creature is still
  \<open>MEDITATING\<close>, and a click on either button does nothing, since both are disabled
  in that state; the same request, when it succeeds, clears the flag.
\<close>

theorem busy_flag_stuck:
  "thought (run (initialApp world800) [ClickMeditate 10000, ThoughtSettles 0 Rejected]) = None
   \<and> isAiLoading (run (initialApp world800) [ClickMeditate 10000]) = True
   \<and> isAiLoading (run (initialApp world800) [ClickMeditate 10000, ThoughtSettles 0 Rejected]) = True
   \<and> capyState (run (initialApp world800) [ClickMeditate 10000, ThoughtSettles 0 Rejected]) =
       MEDITATING
   \<and> handleMeditate 20000
         (run (initialApp world800) [ClickMeditate 10000, ThoughtSettles 0 Rejected]) =
       run (initialApp world800) [ClickMeditate 10000, ThoughtSettles 0 Rejected]
   \<and> handleSleep
         (run (initialApp world800) [ClickMeditate 10000, ThoughtSettles 0 Rejected]) =
       run (initialApp world800) [ClickMeditate 10000, ThoughtSettles 0 Rejected]
   \<and> isAiLoading (run (initialApp world800)
        [ClickMeditate 10000, ThoughtSettles 0 (Resolved ''ok'')]) = False"
  by (simp add: run_def handleMeditate_def handleSleep_def triggerThought_def
      triggerThought_resume_def initialApp_def Let_def)

section \<open>The deferred unlock\<close>

text \<open>
  C7.  A frame that eats registers a timer due 1000 ms later, holding \<open>SWIMMING\<close> when
  the position of that frame is in the water (\<open>y > WATER_LEVEL_Y\<close>) and \<open>IDLE\<close>
  otherwise.  When the timer runs at its due time, in any later state that still
  holds it, the state becomes the one it holds, whatever the state was, \<open>SLEEPING\<close>
  and \<open>MEDITATING\<close> included; before that time it does not run.
\<close>

theorem deferred_unlock:
  assumes "a' = tick w keys now a"
    and "filter (eaten_at (pos a')) (food a) \<noteq> []"
    and "timers b = timers a'"
  shows "timers a' ! length (timers a) =
           \<lparr>timer_due = now + 1000,
            timer_state = (if pos_y (pos a') > WATER_LEVEL_Y w then SWIMMING else IDLE)\<rparr>
       \<and> capyState (timerFires (now + 1000) (length (timers a)) b) =
           (if pos_y (pos a') > WATER_LEVEL_Y w then SWIMMING else IDLE)
       \<and> (\<forall>t. t < now + 1000 \<longrightarrow> timerFires t (length (timers a)) b = b)"
proof -
  let ?n = "length (filter (eaten_at (pos a')) (food a))"
  let ?t = "\<lparr>timer_due = now + 1000,
            timer_state = (if pos_y (pos a') > WATER_LEVEL_Y w then SWIMMING else IDLE)\<rparr>"
  have n: "0 < ?n" using assms(2) by simp
  have ts: "timers a' = timers a @ replicate ?n ?t"
    unfolding assms(1) by (rule tick_timers)
  have at: "timers a' ! length (timers a) = ?t"
    unfolding ts using n by (simp add: nth_append)
  have len: "length (timers a) < length (timers a')"
    unfolding ts using n by simp
  have fire: "capyState (timerFires (now + 1000) (length (timers a)) b) = timer_state ?t"
    using at len by (simp add: timerFires_def assms(3))
  have early: "\<forall>t. t < now + 1000 \<longrightarrow> timerFires t (length (timers a)) b = b"
    using at len by (simp add: timerFires_def assms(3))
  from at fire early show ?thesis by simp
qed

text \<open>The creature eats, is put to sleep, and is set to \<open>IDLE\<close> by the timer.\<close>

theorem deferred_unlock_witness:
  "capyState (run (initialApp world800)
     [SpawnFood \<lparr>food_id = ''f1'', food_x = 410, food_y = 300, food_type = ORANGE\<rparr>,
      Tick world800 {} 16]) = EATING
   \<and> capyState (run (initialApp world800)
     [SpawnFood \<lparr>food_id = ''f1'', food_x = 410, food_y = 300, food_type = ORANGE\<rparr>,
      Tick world800 {} 16,
      ClickSleep]) = SLEEPING
   \<and> capyState (timerFires 1016 0 (run (initialApp world800)
     [SpawnFood \<lparr>food_id = ''f1'', food_x = 410, food_y = 300, food_type = ORANGE\<rparr>,
      Tick world800 {} 16,
      ClickSleep])) = IDLE
   \<and> capyState (timerFires 1015 0 (run (initialApp world800)
     [SpawnFood \<lparr>food_id = ''f1'', food_x = 410, food_y = 300, food_type = ORANGE\<rparr>,
      Tick world800 {} 16,
      ClickSleep])) = SLEEPING"
  using deferred_unlock [OF refl, of world800 "{}" 16
      "run (initialApp world800)
        [SpawnFood \<lparr>food_id = ''f1'', food_x = 410, food_y = 300, food_type = ORANGE\<rparr>]"
      "run (initialApp world800)
        [SpawnFood \<lparr>food_id = ''f1'', food_x = 410, food_y = 300, food_type = ORANGE\<rparr>,
         Tick world800 {} 16,
         ClickSleep]"]
  by (simp add: run_def handleSleep_def spawnFood_def timerFires_def frame_fields frame_eval)

section \<open>Movement keys\<close>

text \<open>
  C9, as the code has it.  In a frame taken in an unlocked state with no horizontal
  key pressed and ending out of the water, the facing direction stays, the derived
  state is \<open>IDLE\<close>, and \<open>y\<close> becomes the previous \<open>y\<close> moved by 3 for every vertical
  direction pressed (up and down cancel) and brought inside the margins.  So the
  position changes when exactly one vertical direction is pressed and the move ends
  inside the margins.
\<close>

theorem vertical_only:
  assumes "capyState a \<noteq> SLEEPING" and "capyState a \<noteq> MEDITATING" and "capyState a \<noteq> EATING"
    and "\<not> has keys ''ArrowLeft''" and "\<not> has keys ''a''"
    and "\<not> has keys ''ArrowRight''" and "\<not> has keys ''d''"
    and "\<not> pos_y (pos (tick w keys now a)) > WATER_LEVEL_Y w"
    and "dy = (if has keys ''ArrowUp'' \<or> has keys ''w'' then - 3 else 0)
            + (if has keys ''ArrowDown'' \<or> has keys ''s'' then 3 else (0::real))"
  shows "direction (tick w keys now a) = direction a
       \<and> res_nextState (physics w keys (direction a) (capyState a) (pos a)) = IDLE
       \<and> capyState (tick w keys now a) =
           (if filter (eaten_at (pos (tick w keys now a))) (food a) = [] then IDLE else EATING)
       \<and> pos (tick w keys now a) =
           \<lparr>pos_x = max 50 (min (innerWidth w - 50) (pos_x (pos a))),
            pos_y = max 50 (min (innerHeight w - 50) (pos_y (pos a) + dy))\<rparr>
       \<and> (dy \<noteq> 0 \<and> 50 \<le> pos_y (pos a) + dy \<and> pos_y (pos a) + dy \<le> innerHeight w - 50
            \<longrightarrow> pos (tick w keys now a) \<noteq> pos a)"
proof -
  note free = assms(1-3)
  have d: "direction (tick w keys now a) = direction a"
    using assms(4-7) by (simp add: tick_direction movement_newDirection [OF free])
  have m: "\<not> isMoving (movement keys (direction a) (capyState a) (pos a))"
    using assms(4-7) by (simp add: movement_isMoving [OF free])
  have n: "res_nextState (physics w keys (direction a) (capyState a) (pos a)) = IDLE"
    using free m assms(8) by (simp add: physics_nextState tick_pos)
  have c: "capyState (tick w keys now a) =
           (if filter (eaten_at (pos (tick w keys now a))) (food a) = [] then IDLE else EATING)"
    by (subst tick_capyState) (simp add: n)
  have x: "pos_x (pos (tick w keys now a)) = max 50 (min (innerWidth w - 50) (pos_x (pos a)))"
    using assms(4-7) by (simp add: tick_pos physics_pos_x movement_newX [OF free])
  have y: "pos_y (pos (tick w keys now a)) = max 50 (min (innerHeight w - 50) (pos_y (pos a) + dy))"
    unfolding assms(9) by (simp add: tick_pos physics_pos_y movement_newY [OF free])
  have p: "pos (tick w keys now a) =
           \<lparr>pos_x = max 50 (min (innerWidth w - 50) (pos_x (pos a))),
            pos_y = max 50 (min (innerHeight w - 50) (pos_y (pos a) + dy))\<rparr>"
    using x y by simp
  have ch: "pos (tick w keys now a) \<noteq> pos a"
    if "dy \<noteq> 0" and "50 \<le> pos_y (pos a) + dy" and "pos_y (pos a) + dy \<le> innerHeight w - 50"
  proof
    assume "pos (tick w keys now a) = pos a"
    then have "pos_y (pos (tick w keys now a)) = pos_y (pos a)" by simp
    then show False using that y by (simp add: clamp_id)
  qed
  from d n c p ch show ?thesis by blast
qed

theorem vertical_only_witness:
  "direction (tick world800 {''ArrowUp''} 16 (initialApp world800)) = Right
   \<and> capyState (tick world800 {''ArrowUp''} 16 (initialApp world800)) = IDLE
   \<and> pos (tick world800 {''ArrowUp''} 16 (initialApp world800)) = \<lparr>pos_x = 400, pos_y = 297\<rparr>
   \<and> pos (tick world800 {''ArrowUp''} 16 (initialApp world800)) \<noteq> pos (initialApp world800)"
  using vertical_only [of "initialApp world800" "{''ArrowUp''}" world800 16 "- 3"]
  by (simp add: frame_fields frame_eval)

text \<open>
  At the upper margin the up arrow leaves the position as it is, and so do the up and
  down arrows pressed together anywhere.
\<close>

theorem vertical_only_counterexample:
  "pos (tick world800 {''ArrowUp''} 16
     ((initialApp world800)\<lparr>pos := \<lparr>pos_x = 400, pos_y = 50\<rparr>\<rparr>)) = \<lparr>pos_x = 400, pos_y = 50\<rparr>
   \<and> pos (tick world800 {''ArrowUp'', ''ArrowDown''} 16 (initialApp world800)) =
       pos (initialApp world800)"
  by (simp add: frame_fields frame_eval)

text \<open>
  C10.  In a frame taken in an unlocked state with a left key and a right key both
  pressed, the two displacements cancel: \<open>x\<close> is the previous \<open>x\<close> brought inside the
  margins, so it is unchanged when the previous \<open>x\<close> is inside them.  The facing
  direction is right, the frame counts as moving, and the derived state is \<open>WALKING\<close>
  when the position is not in the water.
\<close>

theorem left_and_right:
  assumes "capyState a \<noteq> SLEEPING" and "capyState a \<noteq> MEDITATING" and "capyState a \<noteq> EATING"
    and "has keys ''ArrowLeft'' \<or> has keys ''a''"
    and "has keys ''ArrowRight'' \<or> has keys ''d''"
  shows "pos_x (pos (tick w keys now a)) = max 50 (min (innerWidth w - 50) (pos_x (pos a)))
       \<and> (50 \<le> pos_x (pos a) \<and> pos_x (pos a) \<le> innerWidth w - 50
            \<longrightarrow> pos_x (pos (tick w keys now a)) = pos_x (pos a))
       \<and> direction (tick w keys now a) = Right
       \<and> isMoving (movement keys (direction a) (capyState a) (pos a))
       \<and> (\<not> pos_y (pos (tick w keys now a)) > WATER_LEVEL_Y w
            \<longrightarrow> res_nextState (physics w keys (direction a) (capyState a) (pos a)) = WALKING
              \<and> capyState (tick w keys now a) =
                  (if filter (eaten_at (pos (tick w keys now a))) (food a) = [] then WALKING
                   else EATING))"
proof -
  note free = assms(1-3)
  have x: "pos_x (pos (tick w keys now a)) = max 50 (min (innerWidth w - 50) (pos_x (pos a)))"
    using assms(4,5) by (simp add: tick_pos physics_pos_x movement_newX [OF free])
  have x': "pos_x (pos (tick w keys now a)) = pos_x (pos a)"
    if "50 \<le> pos_x (pos a) \<and> pos_x (pos a) \<le> innerWidth w - 50"
    using that x by (simp add: clamp_id)
  have d: "direction (tick w keys now a) = Right"
    using assms(5) by (simp add: tick_direction movement_newDirection [OF free])
  have m: "isMoving (movement keys (direction a) (capyState a) (pos a))"
    using assms(4) by (simp add: movement_isMoving [OF free])
  have n: "res_nextState (physics w keys (direction a) (capyState a) (pos a)) = WALKING"
    if "\<not> pos_y (pos (tick w keys now a)) > WATER_LEVEL_Y w"
    using that free m by (simp add: physics_nextState tick_pos)
  have c: "capyState (tick w keys now a) =
             (if filter (eaten_at (pos (tick w keys now a))) (food a) = [] then WALKING
              else EATING)"
    if "\<not> pos_y (pos (tick w keys now a)) > WATER_LEVEL_Y w"
    by (subst tick_capyState) (simp add: n [OF that])
  from x x' d m n c show ?thesis by blast
qed

theorem left_and_right_witness:
  "pos (tick world800 {''ArrowLeft'', ''d''} 16 ((initialApp world800)\<lparr>direction := Left\<rparr>)) =
     \<lparr>pos_x = 400, pos_y = 300\<rparr>
   \<and> direction (tick world800 {''ArrowLeft'', ''d''} 16
       ((initialApp world800)\<lparr>direction := Left\<rparr>)) = Right
   \<and> capyState (tick world800 {''ArrowLeft'', ''d''} 16
       ((initialApp world800)\<lparr>direction := Left\<rparr>)) = WALKING"
  using left_and_right [of "(initialApp world800)\<lparr>direction := Left\<rparr>" "{''ArrowLeft'', ''d''}"
      world800 16]
  by (simp add: frame_fields frame_eval)

end
